theory Spec2Isabelle
  imports Main "HOL-Library.Sublist"
begin

section \<open>Data model (models.py)\<close>

datatype CategoryEnum = market | technology | event | regulation | innovation | analysis

datatype StatusEnum = published | draft

text \<open>Both enumerations are \<^verbatim>\<open>str\<close> enums: each member carries its literal string value,
  which is also what the storage holds and what a query parameter is compared with.\<close>

fun category_value :: "CategoryEnum \<Rightarrow> string" where
  "category_value market = ''market''"
| "category_value technology = ''technology''"
| "category_value event = ''event''"
| "category_value regulation = ''regulation''"
| "category_value innovation = ''innovation''"
| "category_value analysis = ''analysis''"

fun status_value :: "StatusEnum \<Rightarrow> string" where
  "status_value published = ''published''"
| "status_value draft = ''draft''"

text \<open>A \<^verbatim>\<open>datetime\<close> is kept as an opaque number; its ISO rendering is not modelled.\<close>

type_synonym datetime = int

text \<open>Rows of the two tables. The primary key \<^verbatim>\<open>id\<close> is a non-null text column.\<close>

record User =
  user_id :: string
  user_name :: string
  user_email :: string
  password_hash :: string
  user_role :: "string option"

record Article =
  article_id :: string
  title :: string
  content :: string
  excerpt :: string
  category :: CategoryEnum
  author :: string
  published_at :: datetime
  read_time :: string
  image_url :: "string option"
  tags :: string
  status :: StatusEnum

record LoginCredentials =
  cred_email :: string
  cred_password :: string

record CreateArticleData =
  c_title :: string
  c_content :: string
  c_excerpt :: string
  c_category :: CategoryEnum
  c_tags :: "string list"
  c_image_url :: "string option"
  c_status :: "StatusEnum option"

record UpdateArticleData =
  u_title :: "string option"
  u_content :: "string option"
  u_excerpt :: "string option"
  u_category :: "CategoryEnum option"
  u_tags :: "string list option"
  u_image_url :: "string option"
  u_status :: "StatusEnum option"

text \<open>\<^verbatim>\<open>HTTPException(status_code, detail, headers)\<close>; headers as an association list.\<close>

record HTTPException =
  status_code :: nat
  detail :: string
  headers :: "(string \<times> string) list"

text \<open>\<^verbatim>\<open>session.exec(select(T).where(p)).first()\<close>: the first row satisfying \<open>p\<close>, in
  storage order, or \<^verbatim>\<open>None\<close>.\<close>

definition first_where :: "('a \<Rightarrow> bool) \<Rightarrow> 'a list \<Rightarrow> 'a option" where
  "first_where p rows = find p rows"

section \<open>Credential and token service (auth.py)\<close>

text \<open>The bcrypt context of passlib and the JWT codec of python-jose are libraries outside
  the repository; the functions that call them take them as parameters.
  \<open>jwt.decode\<close> either returns the claim set or raises \<^verbatim>\<open>JWTError\<close> or one of its two
  subclasses \<^verbatim>\<open>ExpiredSignatureError\<close> and \<^verbatim>\<open>JWTClaimsError\<close>. A decoded claim set has
  a string subject or none (jose rejects any other subject with \<^verbatim>\<open>JWTClaimsError\<close>).\<close>

datatype jwt_error = JWTError | ExpiredSignatureError | JWTClaimsError

record payload =
  sub :: "string option"
  exp :: "datetime option"

type_synonym jwt_decode = "string \<Rightarrow> jwt_error + payload"
type_synonym jwt_encode = "payload \<Rightarrow> string"
type_synonym pwd_verify = "string \<Rightarrow> string \<Rightarrow> bool"

definition ACCESS_TOKEN_EXPIRE_MINUTES :: int where
  "ACCESS_TOKEN_EXPIRE_MINUTES = 30"

definition verify_password :: "pwd_verify \<Rightarrow> string \<Rightarrow> string \<Rightarrow> bool" where
  "verify_password ctx_verify plain_password hashed_password =
     ctx_verify plain_password hashed_password"

text \<open>\<^verbatim>\<open>create_access_token\<close>: the expiry is \<open>now + expires_delta\<close>, or \<open>now + 15\<close> minutes
  when no (or a zero) delta is given; time is counted in minutes here.\<close>

definition create_access_token ::
  "jwt_encode \<Rightarrow> datetime \<Rightarrow> string \<Rightarrow> int option \<Rightarrow> string" where
  "create_access_token encode now subject expires_delta =
     (let expire = (case expires_delta of
                      None \<Rightarrow> now + 15
                    | Some d \<Rightarrow> if d \<noteq> 0 then now + d else now + 15)
      in encode \<lparr>sub = Some subject, exp = Some expire\<rparr>)"

text \<open>\<^verbatim>\<open>authenticate_user\<close> returns the user, or \<^verbatim>\<open>False\<close> (here \<open>None\<close>) on either
  failure.\<close>

definition authenticate_user :: "pwd_verify \<Rightarrow> User list \<Rightarrow> string \<Rightarrow> string \<Rightarrow> User option" where
  "authenticate_user ctx_verify users email password =
     (case first_where (\<lambda>u. user_email u = email) users of
        None \<Rightarrow> None
      | Some user \<Rightarrow>
          if \<not> verify_password ctx_verify password (password_hash user) then None
          else Some user)"

definition credentials_exception :: HTTPException where
  "credentials_exception =
     \<lparr>status_code = 401, detail = ''Could not validate credentials'',
      headers = [(''WWW-Authenticate'', ''Bearer'')]\<rparr>"

text \<open>\<^verbatim>\<open>get_current_user\<close>: the \<^verbatim>\<open>except JWTError\<close> clause catches the base class and
  hence both subclasses; every failing branch raises the one \<open>credentials_exception\<close>.\<close>

definition get_current_user :: "jwt_decode \<Rightarrow> User list \<Rightarrow> string \<Rightarrow> HTTPException + User" where
  "get_current_user decode users token =
     (case decode token of
        Inl JWTError \<Rightarrow> Inl credentials_exception
      | Inl ExpiredSignatureError \<Rightarrow> Inl credentials_exception
      | Inl JWTClaimsError \<Rightarrow> Inl credentials_exception
      | Inr pl \<Rightarrow>
          (case sub pl of
             None \<Rightarrow> Inl credentials_exception
           | Some uid \<Rightarrow>
               (case first_where (\<lambda>u. user_id u = uid) users of
                  None \<Rightarrow> Inl credentials_exception
                | Some user \<Rightarrow> Inr user)))"

section \<open>Login endpoint (main.py)\<close>

record AuthUser =
  au_id :: string
  au_name :: string
  au_email :: string
  au_role :: "string option"

record AuthResponse =
  token :: string
  user :: AuthUser

definition login ::
  "pwd_verify \<Rightarrow> jwt_encode \<Rightarrow> datetime \<Rightarrow> User list \<Rightarrow> LoginCredentials
     \<Rightarrow> HTTPException + AuthResponse" where
  "login ctx_verify encode now users credentials =
     (case authenticate_user ctx_verify users (cred_email credentials) (cred_password credentials) of
        None \<Rightarrow>
          Inl \<lparr>status_code = 401, detail = ''Incorrect email or password'', headers = []\<rparr>
      | Some u \<Rightarrow>
          (let access_token =
                 create_access_token encode now (user_id u) (Some ACCESS_TOKEN_EXPIRE_MINUTES)
           in Inr \<lparr>token = access_token,
                   user = \<lparr>au_id = user_id u, au_name = user_name u,
                           au_email = user_email u, au_role = user_role u\<rparr>\<rparr>))"

section \<open>Text helpers of the Python runtime\<close>

text \<open>A string is a list of code points below 256. \<^verbatim>\<open>str.split()\<close> without arguments cuts at
  runs of white space (\<^verbatim>\<open>str.isspace\<close>) and drops empty pieces.\<close>

definition is_space :: "char \<Rightarrow> bool" where
  "is_space c = (let n = (of_char c :: nat)
                 in (9 \<le> n \<and> n \<le> 13) \<or> (28 \<le> n \<and> n \<le> 32) \<or> n = 133 \<or> n = 160)"

fun split_from :: "string \<Rightarrow> string \<Rightarrow> string list" where
  "split_from cur [] = (if cur = [] then [] else [cur])"
| "split_from cur (c # cs) =
     (if is_space c then (if cur = [] then split_from [] cs else cur # split_from [] cs)
      else split_from (cur @ [c]) cs)"

definition py_split :: "string \<Rightarrow> string list" where
  "py_split s = split_from [] s"

text \<open>\<^verbatim>\<open>str(n)\<close> for a natural number: its decimal digits.\<close>

definition digit_char :: "nat \<Rightarrow> char" where
  "digit_char d = char_of (48 + d)"

fun str_of_nat :: "nat \<Rightarrow> string" where
  "str_of_nat n =
     (if n < 10 then [digit_char n] else str_of_nat (n div 10) @ [digit_char (n mod 10)])"

text \<open>The read-time label of \<^verbatim>\<open>create_article\<close> and \<^verbatim>\<open>update_article\<close>:
  \<^verbatim>\<open>f"{len(content.split()) // 200 + 1} min"\<close>.\<close>

definition read_time_label :: "string \<Rightarrow> string" where
  "read_time_label text = str_of_nat (length (py_split text) div 200 + 1) @ '' min''"

section \<open>Tag encoding: json.dumps and json.loads on lists of strings\<close>

text \<open>\<^verbatim>\<open>json.dumps\<close> with its default arguments (\<^verbatim>\<open>ensure_ascii=True\<close>, item separator
  \<^verbatim>\<open>", "\<close>) applied to a list of \<^verbatim>\<open>str\<close>: every character outside the printable ASCII range
  is written as a \<^verbatim>\<open>\uXXXX\<close> escape, the quote and the backslash are escaped with a backslash,
  and five control characters have short escapes. \<open>CHR 0x22\<close> is the double quote and
  \<open>CHR 0x5C\<close> the backslash.\<close>

definition hex_digit :: "nat \<Rightarrow> char" where
  "hex_digit d = (if d < 10 then char_of (48 + d) else char_of (87 + d))"

definition hex4 :: "nat \<Rightarrow> string" where
  "hex4 n = [hex_digit (n div 4096 mod 16), hex_digit (n div 256 mod 16),
             hex_digit (n div 16 mod 16), hex_digit (n mod 16)]"

definition escape_char :: "char \<Rightarrow> string" where
  "escape_char c =
     (if c = CHR 0x22 then [CHR 0x5C, CHR 0x22]
      else if c = CHR 0x5C then [CHR 0x5C, CHR 0x5C]
      else if c = CHR 0x0A then [CHR 0x5C, CHR ''n'']
      else if c = CHR 0x0D then [CHR 0x5C, CHR ''r'']
      else if c = CHR 0x09 then [CHR 0x5C, CHR ''t'']
      else if c = CHR 0x08 then [CHR 0x5C, CHR ''b'']
      else if c = CHR 0x0C then [CHR 0x5C, CHR ''f'']
      else if 32 \<le> (of_char c :: nat) \<and> (of_char c :: nat) \<le> 126 then [c]
      else [CHR 0x5C, CHR ''u''] @ hex4 (of_char c))"

definition encode_basestring_ascii :: "string \<Rightarrow> string" where
  "encode_basestring_ascii s = [CHR 0x22] @ concat (map escape_char s) @ [CHR 0x22]"

fun join_items :: "string list \<Rightarrow> string" where
  "join_items [] = []"
| "join_items [x] = x"
| "join_items (x # y # ys) = x @ '', '' @ join_items (y # ys)"

definition json_dumps :: "string list \<Rightarrow> string" where
  "json_dumps ts = ''['' @ join_items (map encode_basestring_ascii ts) @ '']''"

text \<open>\<^verbatim>\<open>json.loads\<close>, restricted to the documents this program stores: a JSON array of
  strings, with white space allowed around the brackets and commas. \<open>scanstring\<close> reads a
  string literal after its opening quote (strict mode: a raw control character is an
  error) and returns it with the rest of the input; \<open>parse_items\<close> is the loop of the
  array parser. \<open>None\<close> stands for every other outcome: a \<^verbatim>\<open>JSONDecodeError\<close>, a JSON
  value of another shape, or an escape above code point 255.\<close>

definition hex_value :: "char \<Rightarrow> nat option" where
  "hex_value c =
     (let n = (of_char c :: nat)
      in if 48 \<le> n \<and> n \<le> 57 then Some (n - 48)
         else if 97 \<le> n \<and> n \<le> 102 then Some (n - 87)
         else if 65 \<le> n \<and> n \<le> 70 then Some (n - 55)
         else None)"

definition decode_uXXXX :: "char \<Rightarrow> char \<Rightarrow> char \<Rightarrow> char \<Rightarrow> nat option" where
  "decode_uXXXX h1 h2 h3 h4 =
     (case (hex_value h1, hex_value h2, hex_value h3, hex_value h4) of
        (Some a, Some b, Some c, Some d) \<Rightarrow> Some (a * 4096 + b * 256 + c * 16 + d)
      | _ \<Rightarrow> None)"

definition backslash :: "char \<Rightarrow> char option" where
  "backslash e =
     (if e = CHR 0x22 then Some (CHR 0x22)
      else if e = CHR 0x5C then Some (CHR 0x5C)
      else if e = CHR ''/'' then Some (CHR ''/'')
      else if e = CHR ''b'' then Some (CHR 0x08)
      else if e = CHR ''f'' then Some (CHR 0x0C)
      else if e = CHR ''n'' then Some (CHR 0x0A)
      else if e = CHR ''r'' then Some (CHR 0x0D)
      else if e = CHR ''t'' then Some (CHR 0x09)
      else None)"

definition prepend :: "char \<Rightarrow> (string \<times> string) option \<Rightarrow> (string \<times> string) option" where
  "prepend c res = (case res of None \<Rightarrow> None | Some (s, r) \<Rightarrow> Some (c # s, r))"

fun scanstring :: "string \<Rightarrow> (string \<times> string) option" where
  "scanstring [] = None"
| "scanstring (c # cs) =
     (if c = CHR 0x22 then Some ([], cs)
      else if c = CHR 0x5C then
        (case cs of
           [] \<Rightarrow> None
         | e # es \<Rightarrow>
             if e = CHR ''u'' then
               (case es of
                  h1 # h2 # h3 # h4 # r \<Rightarrow>
                    (case decode_uXXXX h1 h2 h3 h4 of
                       None \<Rightarrow> None
                     | Some n \<Rightarrow> if n < 256 then prepend (char_of n) (scanstring r) else None)
                | _ \<Rightarrow> None)
             else (case backslash e of
                     None \<Rightarrow> None
                   | Some ch \<Rightarrow> prepend ch (scanstring es)))
      else if (of_char c :: nat) < 32 then None
      else prepend c (scanstring cs))"

definition is_json_ws :: "char \<Rightarrow> bool" where
  "is_json_ws c = (c = CHR '' '' \<or> c = CHR 0x09 \<or> c = CHR 0x0A \<or> c = CHR 0x0D)"

definition skip_ws :: "string \<Rightarrow> string" where
  "skip_ws s = dropWhile is_json_ws s"

function parse_items :: "string \<Rightarrow> (string list \<times> string) option" where
  "parse_items s =
     (case s of
        [] \<Rightarrow> None
      | c # cs \<Rightarrow>
          if c = CHR 0x22 then
            (case scanstring cs of
               None \<Rightarrow> None
             | Some (v, r) \<Rightarrow>
                 (case skip_ws r of
                    [] \<Rightarrow> None
                  | d # r' \<Rightarrow>
                      if d = CHR '']'' then Some ([v], r')
                      else if d = CHR '','' then
                        (case parse_items (skip_ws r') of
                           None \<Rightarrow> None
                         | Some (vs, r'') \<Rightarrow> Some (v # vs, r''))
                      else None))
          else None)"
  by pat_completeness auto
termination
proof (relation "measure length")
  show "wf (measure length)" by simp
next
  fix s :: string and c cs x2 v r d r'
  assume s: "s = c # cs" and sc: "scanstring cs = Some x2" and x2: "(v, r) = x2"
    and sk: "skip_ws r = d # r'"
  have len: "scanstring xs = Some (w, t) \<Longrightarrow> length t < length xs" for xs w t
  proof (induction xs arbitrary: w t rule: scanstring.induct)
    case 1
    then show ?case by simp
  next
    case (2 c cs)
    then show ?case
      by (fastforce simp: prepend_def split: if_splits list.splits option.splits)
  qed
  from sc x2 have "length r < length cs" using len by metis
  moreover have "length (skip_ws r) \<le> length r"
    by (simp add: skip_ws_def length_dropWhile_le)
  moreover have "length (skip_ws r') \<le> length r'"
    by (simp add: skip_ws_def length_dropWhile_le)
  ultimately show "(skip_ws r', s) \<in> measure length"
    using s sk by simp
qed

declare parse_items.simps [simp del]

definition json_loads :: "string \<Rightarrow> string list option" where
  "json_loads s =
     (case skip_ws s of
        [] \<Rightarrow> None
      | c # r \<Rightarrow>
          if c = CHR ''['' then
            (case skip_ws r of
               [] \<Rightarrow> None
             | d # r' \<Rightarrow>
                 if d = CHR '']'' then (if skip_ws r' = [] then Some [] else None)
                 else (case parse_items (d # r') of
                         None \<Rightarrow> None
                       | Some (vs, r'') \<Rightarrow> if skip_ws r'' = [] then Some vs else None))
          else None)"


section \<open>Storage collaborator: SQLite behind SQLAlchemy (database.py)\<close>

text \<open>The article table is the list of its rows in storage order. A query is the predicate
  of its \<^verbatim>\<open>WHERE\<close> clause; \<^verbatim>\<open>.where(p)\<close> conjoins one more condition and executing the
  query keeps the rows that satisfy it.\<close>

type_synonym query = "Article \<Rightarrow> bool"

definition select_Article :: query where
  "select_Article = (\<lambda>a. True)"

definition where_clause :: "query \<Rightarrow> (Article \<Rightarrow> bool) \<Rightarrow> query" where
  "where_clause q p = (\<lambda>a. q a \<and> p a)"

definition exec_all :: "query \<Rightarrow> Article list \<Rightarrow> Article list" where
  "exec_all q tbl = filter q tbl"

text \<open>\<^verbatim>\<open>col(c).contains(s)\<close> is rendered as \<^verbatim>\<open>c LIKE '%' || s || '%'\<close> with no escape
  character. In SQLite's \<^verbatim>\<open>LIKE\<close> a percent sign of the pattern matches any run of
  characters, an underscore matches any one character, and two characters match when they
  are equal after folding the ASCII capitals to lower case.\<close>

definition ascii_lower :: "char \<Rightarrow> char" where
  "ascii_lower c = (let n = (of_char c :: nat)
                    in if 65 \<le> n \<and> n \<le> 90 then char_of (n + 32) else c)"

fun like :: "string \<Rightarrow> string \<Rightarrow> bool" where
  "like [] [] = True"
| "like [] (c # cs) = False"
| "like (p # ps) [] = (p = CHR ''%'' \<and> like ps [])"
| "like (p # ps) (c # cs) =
     (if p = CHR ''%'' then like ps (c # cs) \<or> like (p # ps) cs
      else (p = CHR ''_'' \<or> ascii_lower p = ascii_lower c) \<and> like ps cs)"

definition contains :: "string \<Rightarrow> string \<Rightarrow> bool" where
  "contains column_value other = like ([CHR ''%''] @ other @ [CHR ''%'']) column_value"

text \<open>\<^verbatim>\<open>.offset(offset).limit(limit)\<close> becomes \<^verbatim>\<open>LIMIT limit OFFSET offset\<close>. SQLite treats
  a negative offset as zero and a negative limit as no upper bound.\<close>

definition offset_limit :: "int \<Rightarrow> int \<Rightarrow> 'a list \<Rightarrow> 'a list" where
  "offset_limit offset limit rows =
     (let skipped = drop (nat offset) rows
      in if limit < 0 then skipped else take (nat limit) skipped)"

text \<open>\<^verbatim>\<open>session.add(article); session.commit()\<close> for a new row: the primary key rejects an
  id that is already stored. For a loaded row the commit writes the changed row back
  under its key.\<close>

datatype api_error = HTTPError HTTPException | JSONDecodeError | IntegrityError

definition commit_insert :: "Article \<Rightarrow> Article list \<Rightarrow> api_error + Article list" where
  "commit_insert a tbl =
     (if article_id a \<in> set (map article_id tbl) then Inl IntegrityError else Inr (tbl @ [a]))"

definition commit_update :: "string \<Rightarrow> Article \<Rightarrow> Article list \<Rightarrow> Article list" where
  "commit_update key a tbl = map (\<lambda>r. if article_id r = key then a else r) tbl"

section \<open>Article endpoints (main.py)\<close>

record ArticleDict =
  d_id :: string
  d_title :: string
  d_content :: string
  d_excerpt :: string
  d_category :: CategoryEnum
  d_author :: string
  d_publishedAt :: datetime
  d_readTime :: string
  d_imageUrl :: "string option"
  d_tags :: "string list"
  d_status :: StatusEnum

record ArticlesResponse =
  articles :: "ArticleDict list"
  total :: int
  has_more :: bool

text \<open>The response dictionary of one article; \<^verbatim>\<open>json.loads(article.tags)\<close> may raise.
  A stored text that is valid JSON but not an array of strings, which no endpoint writes,
  is counted with the undecodable ones.\<close>

definition to_dict :: "Article \<Rightarrow> api_error + ArticleDict" where
  "to_dict article =
     (case json_loads (tags article) of
        None \<Rightarrow> Inl JSONDecodeError
      | Some ts \<Rightarrow>
          Inr \<lparr>d_id = article_id article, d_title = title article,
               d_content = content article, d_excerpt = excerpt article,
               d_category = category article, d_author = author article,
               d_publishedAt = published_at article, d_readTime = read_time article,
               d_imageUrl = image_url article, d_tags = ts, d_status = status article\<rparr>)"

text \<open>The loop of \<^verbatim>\<open>get_articles\<close> that fills \<^verbatim>\<open>article_dicts\<close>.\<close>

fun article_dicts :: "Article list \<Rightarrow> api_error + ArticleDict list" where
  "article_dicts [] = Inr []"
| "article_dicts (article # rest) =
     (case to_dict article of
        Inl e \<Rightarrow> Inl e
      | Inr d \<Rightarrow> (case article_dicts rest of Inl e \<Rightarrow> Inl e | Inr ds \<Rightarrow> Inr (d # ds)))"

text \<open>The first part of \<^verbatim>\<open>get_articles\<close>, which builds the query. Each of
  \<^verbatim>\<open>if category:\<close>, \<^verbatim>\<open>if status:\<close>, \<^verbatim>\<open>if search:\<close> tests truthiness: \<^verbatim>\<open>None\<close> and the
  empty string add no condition.\<close>

definition build_query :: "string option \<Rightarrow> string option \<Rightarrow> string option \<Rightarrow> query" where
  "build_query category_param status_param search =
     (let query = select_Article;
          query = (case category_param of
                     None \<Rightarrow> query
                   | Some c \<Rightarrow>
                       if c \<noteq> [] then where_clause query (\<lambda>a. category_value (category a) = c)
                       else query);
          query = (case status_param of
                     None \<Rightarrow> query
                   | Some s \<Rightarrow>
                       if s \<noteq> [] then where_clause query (\<lambda>a. status_value (status a) = s)
                       else query);
          query = (case search of
                     None \<Rightarrow> query
                   | Some x \<Rightarrow>
                       if x \<noteq> [] then
                         where_clause query (\<lambda>a. contains (title a) x \<or> contains (content a) x)
                       else query)
      in query)"

text \<open>The rest of \<^verbatim>\<open>get_articles\<close>: the count of the whole result, the window, the
  response dictionaries and the flag.\<close>

definition get_articles ::
  "string option \<Rightarrow> string option \<Rightarrow> string option \<Rightarrow> int \<Rightarrow> int \<Rightarrow> Article list
     \<Rightarrow> api_error + ArticlesResponse" where
  "get_articles category_param status_param search limit offset tbl =
     (let query = build_query category_param status_param search;
          total_query = query;
          total_count = int (length (exec_all total_query tbl));
          rows = offset_limit offset limit (exec_all query tbl)
      in case article_dicts rows of
           Inl e \<Rightarrow> Inl e
         | Inr ds \<Rightarrow>
             Inr \<lparr>articles = ds, total = total_count,
                  has_more = (offset + limit < total_count)\<rparr>)"

text \<open>\<^verbatim>\<open>create_article\<close>. The id comes from \<^verbatim>\<open>uuid.uuid4()\<close> and the publication time from
  the clock; both are arguments here. The result is the response together with the table
  after the request.\<close>

definition create_article ::
  "string \<Rightarrow> datetime \<Rightarrow> CreateArticleData \<Rightarrow> User \<Rightarrow> Article list
     \<Rightarrow> (api_error + ArticleDict) \<times> Article list" where
  "create_article uuid4 now data current_user tbl =
     (let article =
            \<lparr>article_id = uuid4, title = c_title data, content = c_content data,
             excerpt = c_excerpt data, category = c_category data,
             author = user_name current_user, published_at = now,
             read_time = read_time_label (c_content data),
             image_url = c_image_url data, tags = json_dumps (c_tags data),
             status = (case c_status data of None \<Rightarrow> published | Some s \<Rightarrow> s)\<rparr>
      in case commit_insert article tbl of
           Inl e \<Rightarrow> (Inl e, tbl)
         | Inr tbl' \<Rightarrow> (to_dict article, tbl'))"

text \<open>The field assignments of \<^verbatim>\<open>update_article\<close>, in the order of the source.\<close>

definition apply_update :: "UpdateArticleData \<Rightarrow> Article \<Rightarrow> Article" where
  "apply_update data article =
     (let article = (case u_title data of
                       None \<Rightarrow> article | Some v \<Rightarrow> article\<lparr>title := v\<rparr>);
          article = (case u_content data of
                       None \<Rightarrow> article
                     | Some v \<Rightarrow> article\<lparr>content := v, read_time := read_time_label v\<rparr>);
          article = (case u_excerpt data of
                       None \<Rightarrow> article | Some v \<Rightarrow> article\<lparr>excerpt := v\<rparr>);
          article = (case u_category data of
                       None \<Rightarrow> article | Some v \<Rightarrow> article\<lparr>category := v\<rparr>);
          article = (case u_tags data of
                       None \<Rightarrow> article | Some v \<Rightarrow> article\<lparr>tags := json_dumps v\<rparr>);
          article = (case u_image_url data of
                       None \<Rightarrow> article | Some v \<Rightarrow> article\<lparr>image_url := Some v\<rparr>);
          article = (case u_status data of
                       None \<Rightarrow> article | Some v \<Rightarrow> article\<lparr>status := v\<rparr>)
      in article)"

definition update_article ::
  "string \<Rightarrow> UpdateArticleData \<Rightarrow> User \<Rightarrow> Article list
     \<Rightarrow> (api_error + ArticleDict) \<times> Article list" where
  "update_article key data current_user tbl =
     (case first_where (\<lambda>a. article_id a = key) tbl of
        None \<Rightarrow>
          (Inl (HTTPError \<lparr>status_code = 404, detail = ''Article not found'', headers = []\<rparr>),
           tbl)
      | Some article \<Rightarrow>
          (let article' = apply_update data article
           in (to_dict article', commit_update key article' tbl)))"

section \<open>Reference predicates and sample data\<close>

text \<open>The matching policy in the words of the specification: a filter that is given must
  hold, category and status by equality of the string values, search by occurrence as a
  contiguous substring of the title or of the content.\<close>

definition literal_match :: "string option \<Rightarrow> string option \<Rightarrow> string option \<Rightarrow> Article \<Rightarrow> bool" where
  "literal_match category_param status_param search a =
     ((case category_param of None \<Rightarrow> True | Some c \<Rightarrow> category_value (category a) = c) \<and>
      (case status_param of None \<Rightarrow> True | Some s \<Rightarrow> status_value (status a) = s) \<and>
      (case search of None \<Rightarrow> True | Some x \<Rightarrow> sublist x (title a) \<or> sublist x (content a)))"

text \<open>The matching policy of the code: a filter counts when it is given and not empty;
  search is the \<^verbatim>\<open>LIKE\<close> containment of the storage.\<close>

definition like_match :: "string option \<Rightarrow> string option \<Rightarrow> string option \<Rightarrow> Article \<Rightarrow> bool" where
  "like_match category_param status_param search a =
     ((case category_param of
         None \<Rightarrow> True
       | Some c \<Rightarrow> if c = [] then True else category_value (category a) = c) \<and>
      (case status_param of
         None \<Rightarrow> True
       | Some s \<Rightarrow> if s = [] then True else status_value (status a) = s) \<and>
      (case search of
         None \<Rightarrow> True
       | Some x \<Rightarrow> if x = [] then True else contains (title a) x \<or> contains (content a) x))"

text \<open>A stored row is decodable when its tags text is a JSON array of strings, as every
  text written by this program is.\<close>

definition decodable :: "Article \<Rightarrow> bool" where
  "decodable a = (json_loads (tags a) \<noteq> None)"

text \<open>The two articles and the user that \<^verbatim>\<open>database.py\<close> stores at start-up, with fixed
  ids and times in place of the random and clock values.\<close>

definition sample_bitcoin :: Article where
  "sample_bitcoin =
     \<lparr>article_id = ''0b9f5a1e-6c1d-4a58-9d55-3f1c2c7e8a01'',
      title = ''Bitcoin atinge nova m'' @ [CHR 0xE1] @ ''xima hist'' @ [CHR 0xF3] @ ''rica'',
      content = ''Bitcoin reached a new all-time high today...'',
      excerpt = ''Cryptocurrency market shows strong momentum'',
      category = market, author = ''Admin'', published_at = 1000,
      read_time = ''5 min'', image_url = None,
      tags = json_dumps [''bitcoin'', ''crypto'', ''market''],
      status = published\<rparr>"

definition sample_defi :: Article where
  "sample_defi =
     \<lparr>article_id = ''7d2e4c90-12ab-4f3e-8b6a-5e9d0c4b7f02'',
      title = ''Nova regulamenta'' @ [CHR 0xE7, CHR 0xE3] @ ''o DeFi no Brasil'',
      content = ''Brazilian government announces new DeFi regulations...'',
      excerpt = ''New regulatory framework for decentralized finance'',
      category = regulation, author = ''Admin'', published_at = 1000,
      read_time = ''8 min'', image_url = None,
      tags = json_dumps [''defi'', ''regulation'', ''brazil''],
      status = published\<rparr>"

definition sample_admin :: User where
  "sample_admin =
     \<lparr>user_id = ''3c6f1d2a-9e47-4b10-a5c8-1f0e9d8c7b03'', user_name = ''Admin'',
      user_email = ''admin@example.com'', password_hash = ''bcrypt:admin123'',
      user_role = Some ''admin''\<rparr>"

text \<open>A table of \<open>n\<close> market articles with the ids \<open>0\<close> to \<open>n - 1\<close>.\<close>

fun numbered :: "nat \<Rightarrow> Article list" where
  "numbered 0 = []"
| "numbered (Suc n) = numbered n @ [sample_bitcoin\<lparr>article_id := str_of_nat n\<rparr>]"

text \<open>Stand-ins for the library parameters, to run examples: a password check that
  compares with the tagged plain text, a token encoder, and a decoder that knows four
  tokens.\<close>

definition sample_verify :: pwd_verify where
  "sample_verify plain hashed = (hashed = ''bcrypt:'' @ plain)"

definition sample_encode :: jwt_encode where
  "sample_encode pl = ''jwt:'' @ (case sub pl of None \<Rightarrow> [] | Some s \<Rightarrow> s)"

definition sample_decode :: jwt_decode where
  "sample_decode t =
     (if t = ''valid'' then Inr \<lparr>sub = Some ''3c6f1d2a-9e47-4b10-a5c8-1f0e9d8c7b03'', exp = Some 2000\<rparr>
      else if t = ''expired'' then Inl ExpiredSignatureError
      else if t = ''nosub'' then Inr \<lparr>sub = None, exp = Some 2000\<rparr>
      else if t = ''ghost'' then Inr \<lparr>sub = Some ''deleted-user'', exp = Some 2000\<rparr>
      else Inl JWTError)"

section \<open>The tag encoding round trip\<close>

lemma hex_value_hex_digit: "d < 16 \<Longrightarrow> hex_value (hex_digit d) = Some d"
  by (simp add: hex_value_def hex_digit_def Let_def)

lemma decode_hex4:
  assumes "n < 256"
  shows "decode_uXXXX (hex_digit (n div 4096 mod 16)) (hex_digit (n div 256 mod 16))
           (hex_digit (n div 16 mod 16)) (hex_digit (n mod 16)) = Some n"
proof -
  have hi: "n div 4096 mod 16 = 0" "n div 256 mod 16 = 0"
    using assms by simp_all
  have mid: "n div 16 mod 16 = n div 16"
    using assms by simp
  have small: "n div 16 < 16" "n mod 16 < 16"
    using assms by simp_all
  have "n div 16 * 16 + n mod 16 = n"
    by simp
  then show ?thesis
    unfolding hi mid decode_uXXXX_def by (simp add: hex_value_hex_digit small)
qed

lemma scanstring_unicode_escape:
  "decode_uXXXX h1 h2 h3 h4 = Some n \<Longrightarrow> n < 256 \<Longrightarrow>
   scanstring (CHR 0x5C # CHR ''u'' # h1 # h2 # h3 # h4 # rest) =
     prepend (char_of n) (scanstring rest)"
  by simp

lemma scanstring_hex4:
  "scanstring (CHR 0x5C # CHR ''u'' # hex4 (of_char c) @ rest) = prepend c (scanstring rest)"
proof -
  have n: "(of_char c :: nat) < 256"
    by simp
  have "scanstring (CHR 0x5C # CHR ''u'' # hex4 (of_char c) @ rest) =
          prepend (char_of (of_char c :: nat)) (scanstring rest)"
    unfolding hex4_def append_Cons append_Nil
    by (rule scanstring_unicode_escape [OF decode_hex4 [OF n] n])
  then show ?thesis
    by simp
qed

lemma scanstring_escape_char:
  "scanstring (escape_char c @ rest) = prepend c (scanstring rest)"
proof (cases "c = CHR 0x22 \<or> c = CHR 0x5C \<or> c = CHR 0x0A \<or> c = CHR 0x0D \<or> c = CHR 0x09
                \<or> c = CHR 0x08 \<or> c = CHR 0x0C")
  case True
  then show ?thesis
    by (auto simp: escape_char_def backslash_def)
next
  case short: False
  show ?thesis
  proof (cases "32 \<le> (of_char c :: nat) \<and> (of_char c :: nat) \<le> 126")
    case True
    with short show ?thesis
      by (simp add: escape_char_def)
  next
    case False
    with short have "escape_char c = CHR 0x5C # CHR ''u'' # hex4 (of_char c)"
      by (simp add: escape_char_def)
    then show ?thesis
      using scanstring_hex4 by simp
  qed
qed

lemma scanstring_escaped:
  "scanstring (concat (map escape_char s) @ CHR 0x22 # rest) = Some (s, rest)"
  by (induction s) (simp_all add: scanstring_escape_char prepend_def)

lemma skip_ws_simps:
  "skip_ws (CHR '']'' # r) = CHR '']'' # r"
  "skip_ws (CHR '','' # r) = CHR '','' # r"
  "skip_ws (CHR 0x22 # r) = CHR 0x22 # r"
  "skip_ws (CHR ''['' # r) = CHR ''['' # r"
  "skip_ws (CHR '' '' # r) = skip_ws r"
  "skip_ws [] = []"
  by (simp_all add: skip_ws_def is_json_ws_def)

lemma parse_items_string:
  "parse_items (CHR 0x22 # concat (map escape_char x) @ CHR 0x22 # rest) =
     (case skip_ws rest of
        [] \<Rightarrow> None
      | d # r' \<Rightarrow>
          if d = CHR '']'' then Some ([x], r')
          else if d = CHR '','' then
            (case parse_items (skip_ws r') of
               None \<Rightarrow> None
             | Some (vs, r'') \<Rightarrow> Some (x # vs, r''))
          else None)"
  by (subst parse_items.simps) (simp add: scanstring_escaped)

lemma join_items_Cons:
  "join_items (x # xs) = (if xs = [] then x else x @ '', '' @ join_items xs)"
  by (cases xs) simp_all

lemma join_items_quote:
  "ts \<noteq> [] \<Longrightarrow> \<exists>r. join_items (map encode_basestring_ascii ts) = CHR 0x22 # r"
  by (cases ts) (auto simp: join_items_Cons encode_basestring_ascii_def)

lemma parse_items_join:
  "ts \<noteq> [] \<Longrightarrow>
   parse_items (join_items (map encode_basestring_ascii ts) @ CHR '']'' # rest) = Some (ts, rest)"
proof (induction ts)
  case Nil
  then show ?case by simp
next
  case (Cons t ts)
  show ?case
  proof (cases "ts = []")
    case True
    then show ?thesis
      by (simp add: encode_basestring_ascii_def parse_items_string skip_ws_simps)
  next
    case False
    then obtain r where r: "join_items (map encode_basestring_ascii ts) = CHR 0x22 # r"
      using join_items_quote by blast
    have ih: "parse_items (CHR 0x22 # r @ CHR '']'' # rest) = Some (ts, rest)"
      using Cons.IH [OF False] r by simp
    have "join_items (map encode_basestring_ascii (t # ts)) @ CHR '']'' # rest =
            CHR 0x22 # concat (map escape_char t) @ CHR 0x22 #
              (CHR '','' # CHR '' '' # CHR 0x22 # r @ CHR '']'' # rest)"
      using False r by (simp add: join_items_Cons encode_basestring_ascii_def)
    then show ?thesis
      by (simp add: parse_items_string skip_ws_simps ih)
  qed
qed

lemma json_loads_json_dumps: "json_loads (json_dumps ts) = Some ts"
proof (cases "ts = []")
  case True
  then show ?thesis
    by (simp add: json_loads_def json_dumps_def skip_ws_simps)
next
  case False
  then obtain r where r: "join_items (map encode_basestring_ascii ts) = CHR 0x22 # r"
    using join_items_quote by blast
  have p: "parse_items (CHR 0x22 # r @ CHR '']'' # []) = Some (ts, [])"
    using parse_items_join [OF False, of "[]"] r by simp
  show ?thesis
    by (simp add: json_loads_def json_dumps_def skip_ws_simps r p)
qed

text \<open>C8. For every list of tag strings, whatever characters they contain (the quote, the
  backslash, the comma and the brackets of the encoding included), decoding the text that
  \<open>json_dumps\<close> writes gives back exactly the list: the same strings in the same order.\<close>

theorem tags_round_trip: "json_loads (json_dumps tag_list) = Some tag_list"
  by (rule json_loads_json_dumps)

text \<open>The example of the specification, with the stored text spelled out
  (\<open>CHR 0x22\<close> is the double quote).\<close>

theorem tags_round_trip_example:
  "json_dumps [''a'', ''b,c''] =
     ''['' @ [CHR 0x22] @ ''a'' @ [CHR 0x22] @ '', '' @ [CHR 0x22] @ ''b,c'' @ [CHR 0x22] @ '']'' \<and>
   json_loads (json_dumps [''a'', ''b,c'']) = Some [''a'', ''b,c'']"
proof -
  have "json_dumps [''a'', ''b,c''] =
     ''['' @ [CHR 0x22] @ ''a'' @ [CHR 0x22] @ '', '' @ [CHR 0x22] @ ''b,c'' @ [CHR 0x22] @ '']''"
    by (simp add: json_dumps_def encode_basestring_ascii_def escape_char_def)
  then show ?thesis
    using tags_round_trip [of "[''a'', ''b,c'']"] by simp
qed


section \<open>Token verification and login\<close>

lemma get_current_user_decode_error:
  "decode bearer = Inl e \<Longrightarrow> get_current_user decode users bearer = Inl credentials_exception"
  by (cases e) (simp_all add: get_current_user_def)

lemma first_where_Some:
  "first_where p rows = Some r \<Longrightarrow> p r \<and> r \<in> set rows"
  unfolding first_where_def by (induction rows) (auto split: if_splits)

text \<open>C1, as the code has it. Token verification has one failure, not three: whether the
  decoder rejects the token (bad signature, malformed, or expired), the claim set has no
  subject, or no user has the subject as id, the caller gets the same
  \<open>credentials_exception\<close> (status 401, "Could not validate credentials"). When the token
  decodes to a subject that is the id of a stored user, that user is returned.\<close>

theorem token_failures_are_one_exception:
  "(decode bearer = Inl e \<longrightarrow>
      get_current_user decode users bearer = Inl credentials_exception) \<and>
   (decode bearer = Inr pl \<and> sub pl = None \<longrightarrow>
      get_current_user decode users bearer = Inl credentials_exception) \<and>
   (decode bearer = Inr pl \<and> sub pl = Some uid \<and>
      first_where (\<lambda>u. user_id u = uid) users = None \<longrightarrow>
      get_current_user decode users bearer = Inl credentials_exception) \<and>
   (decode bearer = Inr pl \<and> sub pl = Some uid \<and>
      first_where (\<lambda>u. user_id u = uid) users = Some found \<longrightarrow>
      get_current_user decode users bearer = Inr found \<and> user_id found = uid \<and>
      found \<in> set users)"
proof (intro conjI impI)
  assume "decode bearer = Inl e"
  then show "get_current_user decode users bearer = Inl credentials_exception"
    by (rule get_current_user_decode_error)
next
  assume "decode bearer = Inr pl \<and> sub pl = None"
  then show "get_current_user decode users bearer = Inl credentials_exception"
    by (simp add: get_current_user_def)
next
  assume "decode bearer = Inr pl \<and> sub pl = Some uid \<and>
    first_where (\<lambda>u. user_id u = uid) users = None"
  then show "get_current_user decode users bearer = Inl credentials_exception"
    by (simp add: get_current_user_def)
next
  assume a: "decode bearer = Inr pl \<and> sub pl = Some uid \<and>
    first_where (\<lambda>u. user_id u = uid) users = Some found"
  then show "get_current_user decode users bearer = Inr found"
    by (simp add: get_current_user_def)
  from a show "user_id found = uid"
    using first_where_Some [of "\<lambda>u. user_id u = uid" users found] by simp
  from a show "found \<in> set users"
    using first_where_Some [of "\<lambda>u. user_id u = uid" users found] by simp
qed

text \<open>The four cases on the sample decoder and the start-up user: an expired token, a
  token without subject and a token of an unknown user fail alike; a valid token returns
  the administrator.\<close>

theorem token_failures_are_one_exception_witness:
  "get_current_user sample_decode [sample_admin] ''expired'' = Inl credentials_exception \<and>
   get_current_user sample_decode [sample_admin] ''nosub'' = Inl credentials_exception \<and>
   get_current_user sample_decode [sample_admin] ''ghost'' = Inl credentials_exception \<and>
   get_current_user sample_decode [sample_admin] ''valid'' = Inr sample_admin"
proof -
  have expired: "sample_decode ''expired'' = Inl ExpiredSignatureError"
    by (simp add: sample_decode_def)
  have nosub: "sample_decode ''nosub'' = Inr \<lparr>sub = None, exp = Some 2000\<rparr> \<and>
      sub \<lparr>sub = None, exp = Some 2000\<rparr> = None"
    by (simp add: sample_decode_def)
  have ghost: "sample_decode ''ghost'' = Inr \<lparr>sub = Some ''deleted-user'', exp = Some 2000\<rparr> \<and>
      sub \<lparr>sub = Some ''deleted-user'', exp = Some 2000\<rparr> = Some ''deleted-user'' \<and>
      first_where (\<lambda>u. user_id u = ''deleted-user'') [sample_admin] = None"
    by (simp add: sample_decode_def first_where_def sample_admin_def)
  have valid: "sample_decode ''valid'' =
        Inr \<lparr>sub = Some ''3c6f1d2a-9e47-4b10-a5c8-1f0e9d8c7b03'', exp = Some 2000\<rparr> \<and>
      sub \<lparr>sub = Some ''3c6f1d2a-9e47-4b10-a5c8-1f0e9d8c7b03'', exp = Some 2000\<rparr> =
        Some ''3c6f1d2a-9e47-4b10-a5c8-1f0e9d8c7b03'' \<and>
      first_where (\<lambda>u. user_id u = ''3c6f1d2a-9e47-4b10-a5c8-1f0e9d8c7b03'') [sample_admin] =
        Some sample_admin"
    by (simp add: sample_decode_def first_where_def sample_admin_def)
  have 1: "get_current_user sample_decode [sample_admin] ''expired'' = Inl credentials_exception"
    by (rule token_failures_are_one_exception
          [where decode = sample_decode and users = "[sample_admin]" and bearer = "''expired''",
           THEN conjunct1, rule_format, OF expired])
  have 2: "get_current_user sample_decode [sample_admin] ''nosub'' = Inl credentials_exception"
    by (rule token_failures_are_one_exception
          [where decode = sample_decode and users = "[sample_admin]" and bearer = "''nosub''",
           THEN conjunct2, THEN conjunct1, rule_format, OF nosub])
  have 3: "get_current_user sample_decode [sample_admin] ''ghost'' = Inl credentials_exception"
    by (rule token_failures_are_one_exception
          [where decode = sample_decode and users = "[sample_admin]" and bearer = "''ghost''",
           THEN conjunct2, THEN conjunct2, THEN conjunct1, rule_format, OF ghost])
  have 4: "get_current_user sample_decode [sample_admin] ''valid'' = Inr sample_admin"
    by (rule token_failures_are_one_exception
          [where decode = sample_decode and users = "[sample_admin]" and bearer = "''valid''",
           THEN conjunct2, THEN conjunct2, THEN conjunct2, rule_format, OF valid,
           THEN conjunct1])
  from 1 2 3 4 show ?thesis
    by (intro conjI)
qed

text \<open>C1, as the specification states it, fails: an expired token, a tampered token and a
  token of a removed user are three causes, and the caller sees one and the same failure
  for all of them.\<close>

theorem token_failure_kinds_counterexample:
  "sample_decode ''expired'' = Inl ExpiredSignatureError \<and>
   sample_decode ''tampered'' = Inl JWTError \<and>
   sample_decode ''ghost'' = Inr \<lparr>sub = Some ''deleted-user'', exp = Some 2000\<rparr> \<and>
   get_current_user sample_decode [sample_admin] ''expired'' =
     get_current_user sample_decode [sample_admin] ''tampered'' \<and>
   get_current_user sample_decode [sample_admin] ''expired'' =
     get_current_user sample_decode [sample_admin] ''ghost''"
  by (simp add: sample_decode_def get_current_user_def first_where_def sample_admin_def)

text \<open>C2. A login with an email that no user has and a login whose password fails
  verification end the same way: \<open>authenticate_user\<close> returns its one failure value and
  \<open>login\<close> raises the same exception (status 401, "Incorrect email or password").\<close>

theorem login_failures_are_indistinguishable:
  assumes "first_where (\<lambda>u. user_email u = cred_email credentials) users = None \<or>
           (first_where (\<lambda>u. user_email u = cred_email credentials) users = Some found \<and>
            \<not> ctx_verify (cred_password credentials) (password_hash found))"
  shows "authenticate_user ctx_verify users (cred_email credentials) (cred_password credentials)
           = None \<and>
         login ctx_verify encode now users credentials =
           Inl \<lparr>status_code = 401, detail = ''Incorrect email or password'', headers = []\<rparr>"
proof -
  have "authenticate_user ctx_verify users (cred_email credentials) (cred_password credentials)
          = None"
    using assms by (auto simp: authenticate_user_def verify_password_def)
  then show ?thesis
    by (simp add: login_def)
qed

text \<open>An unknown email and a wrong password for the administrator give equal results.\<close>

theorem login_failures_are_indistinguishable_witness:
  "login sample_verify sample_encode 0 [sample_admin]
     \<lparr>cred_email = ''nobody@example.com'', cred_password = ''admin123''\<rparr> =
   login sample_verify sample_encode 0 [sample_admin]
     \<lparr>cred_email = ''admin@example.com'', cred_password = ''wrong''\<rparr> \<and>
   login sample_verify sample_encode 0 [sample_admin]
     \<lparr>cred_email = ''admin@example.com'', cred_password = ''wrong''\<rparr> =
   Inl \<lparr>status_code = 401, detail = ''Incorrect email or password'', headers = []\<rparr>"
proof -
  have unknown:
    "first_where (\<lambda>u. user_email u =
        cred_email \<lparr>cred_email = ''nobody@example.com'', cred_password = ''admin123''\<rparr>)
      [sample_admin] = None"
    by (simp add: first_where_def sample_admin_def)
  have wrong:
    "first_where (\<lambda>u. user_email u =
        cred_email \<lparr>cred_email = ''admin@example.com'', cred_password = ''wrong''\<rparr>)
      [sample_admin] = Some sample_admin \<and>
     \<not> sample_verify
         (cred_password \<lparr>cred_email = ''admin@example.com'', cred_password = ''wrong''\<rparr>)
         (password_hash sample_admin)"
    by (simp add: first_where_def sample_admin_def sample_verify_def)
  have 1: "login sample_verify sample_encode 0 [sample_admin]
       \<lparr>cred_email = ''nobody@example.com'', cred_password = ''admin123''\<rparr> =
     Inl \<lparr>status_code = 401, detail = ''Incorrect email or password'', headers = []\<rparr>"
    by (rule login_failures_are_indistinguishable
          [where ctx_verify = sample_verify and users = "[sample_admin]",
           THEN conjunct2, OF disjI1, OF unknown])
  have 2: "login sample_verify sample_encode 0 [sample_admin]
       \<lparr>cred_email = ''admin@example.com'', cred_password = ''wrong''\<rparr> =
     Inl \<lparr>status_code = 401, detail = ''Incorrect email or password'', headers = []\<rparr>"
    by (rule login_failures_are_indistinguishable
          [where ctx_verify = sample_verify and users = "[sample_admin]",
           THEN conjunct2, OF disjI2, OF wrong])
  show ?thesis
    unfolding 1 2 by simp
qed


section \<open>Listing articles\<close>

lemma build_query_like_match:
  "build_query cat st srch a = like_match cat st srch a"
  by (simp add: build_query_def Let_def like_match_def where_clause_def select_Article_def
        split: option.splits)

lemma exec_build_query:
  "exec_all (build_query cat st srch) tbl = filter (like_match cat st srch) tbl"
  unfolding exec_all_def
  by (rule filter_cong [OF refl]) (rule build_query_like_match)

lemma get_articles_unfold:
  "get_articles cat st srch limit offset tbl =
     (case article_dicts (offset_limit offset limit (filter (like_match cat st srch) tbl)) of
        Inl e \<Rightarrow> Inl e
      | Inr ds \<Rightarrow>
          Inr \<lparr>articles = ds, total = int (length (filter (like_match cat st srch) tbl)),
               has_more = (offset + limit < int (length (filter (like_match cat st srch) tbl)))\<rparr>)"
  unfolding get_articles_def Let_def exec_build_query by (rule refl)

lemma article_dicts_decodable:
  "list_all decodable rows \<Longrightarrow>
   \<exists>ds. article_dicts rows = Inr ds \<and> list_all2 (\<lambda>a d. to_dict a = Inr d) rows ds"
proof (induction rows)
  case Nil
  then show ?case by simp
next
  case (Cons a rows)
  then obtain ds where ds: "article_dicts rows = Inr ds"
      "list_all2 (\<lambda>a d. to_dict a = Inr d) rows ds"
    by auto
  from Cons.prems obtain ts where "json_loads (tags a) = Some ts"
    by (auto simp: decodable_def)
  then obtain d where "to_dict a = Inr d"
    by (simp add: to_dict_def)
  with ds show ?case
    by simp
qed

lemma decodable_offset_limit:
  "list_all decodable rows \<Longrightarrow> list_all decodable (offset_limit offset limit rows)"
  unfolding offset_limit_def Let_def list_all_iff
  by (auto dest: in_set_takeD in_set_dropD)

lemma decodable_filter:
  "list_all decodable rows \<Longrightarrow> list_all decodable (filter p rows)"
  unfolding list_all_iff by simp

lemma get_articles_decodable:
  assumes "list_all decodable tbl"
  shows "\<exists>ds. get_articles cat st srch limit offset tbl =
           Inr \<lparr>articles = ds, total = int (length (filter (like_match cat st srch) tbl)),
                has_more = (offset + limit < int (length (filter (like_match cat st srch) tbl)))\<rparr> \<and>
           list_all2 (\<lambda>a d. to_dict a = Inr d)
             (offset_limit offset limit (filter (like_match cat st srch) tbl)) ds"
proof -
  have "list_all decodable (offset_limit offset limit (filter (like_match cat st srch) tbl))"
    using assms by (intro decodable_offset_limit decodable_filter)
  from article_dicts_decodable [OF this] obtain ds where
    "article_dicts (offset_limit offset limit (filter (like_match cat st srch) tbl)) = Inr ds"
    "list_all2 (\<lambda>a d. to_dict a = Inr d)
       (offset_limit offset limit (filter (like_match cat st srch) tbl)) ds"
    by blast
  then show ?thesis
    by (simp add: get_articles_unfold)
qed

lemma decodable_numbered: "list_all decodable (numbered n)"
  by (induction n) (simp_all add: decodable_def sample_bitcoin_def json_loads_json_dumps)

lemma length_numbered: "length (numbered n) = n"
  by (induction n) simp_all

lemma like_match_no_filter: "like_match None None None a"
  by (simp add: like_match_def)

lemma like_percent_skip: "like ps t \<Longrightarrow> like (CHR ''%'' # ps) t"
  by (cases t) simp_all

lemma like_percent_all: "like [CHR ''%''] t"
  by (induction t) simp_all

lemma like_percent_drop: "like (CHR ''%'' # ps) t \<Longrightarrow> like (CHR ''%'' # ps) (pre @ t)"
  by (induction pre) simp_all

lemma like_same_prefix: "like ps t \<Longrightarrow> like (x @ ps) (x @ t)"
proof (induction x)
  case Nil
  then show ?case by simp
next
  case (Cons c x)
  then have "like (x @ ps) (x @ t)"
    by simp
  then show ?case
    using like_percent_skip [of "x @ ps" "x @ t"] by simp
qed

lemma sublist_contains: "sublist x t \<Longrightarrow> contains t x"
proof -
  assume "sublist x t"
  then obtain pre post where t: "t = pre @ x @ post"
    by (auto simp: sublist_def)
  have "like (x @ [CHR ''%'']) (x @ post)"
    by (rule like_same_prefix) (rule like_percent_all)
  then have "like (CHR ''%'' # x @ [CHR ''%'']) (x @ post)"
    by (rule like_percent_skip)
  then have "like (CHR ''%'' # x @ [CHR ''%'']) (pre @ x @ post)"
    by (rule like_percent_drop)
  then show ?thesis
    by (simp add: contains_def t)
qed

lemma sample_tags_decodable: "list_all decodable [sample_bitcoin, sample_defi]"
  by (simp add: decodable_def sample_bitcoin_def sample_defi_def json_loads_json_dumps)

text \<open>C3, as the code has it. For every table whose rows hold decodable tags and every
  list call, the call succeeds; a row is selected exactly when it satisfies \<open>like_match\<close>:
  the conjunction of the filters that are given and not empty, category and status by
  equality with the stored string value, search by the storage's \<^verbatim>\<open>LIKE\<close> containment in
  title or content (a percent sign of the search string stands for any run of characters,
  an underscore for any one character, ASCII letters match in either case). The total is
  the number of all selected rows, whatever the window; the items are the dictionaries of
  the selected rows inside the window.\<close>

theorem list_selects_like_matches:
  assumes "list_all decodable tbl"
  shows "\<exists>ds. get_articles cat st srch limit offset tbl =
           Inr \<lparr>articles = ds, total = int (length (filter (like_match cat st srch) tbl)),
                has_more = (offset + limit < int (length (filter (like_match cat st srch) tbl)))\<rparr> \<and>
           list_all2 (\<lambda>a d. to_dict a = Inr d)
             (offset_limit offset limit (filter (like_match cat st srch) tbl)) ds"
  using assms by (rule get_articles_decodable)

text \<open>On the two start-up articles, category "market" with search "bitcoin" selects the
  first article alone; the capital B of its title matches the small b.\<close>

theorem list_selects_like_matches_witness:
  "list_all decodable [sample_bitcoin, sample_defi] \<and>
   total (projr (get_articles (Some ''market'') None (Some ''bitcoin'') 10 0
                   [sample_bitcoin, sample_defi])) = 1 \<and>
   map d_id (articles (projr (get_articles (Some ''market'') None (Some ''bitcoin'') 10 0
                   [sample_bitcoin, sample_defi]))) = [article_id sample_bitcoin]"
proof -
  have sel: "filter (like_match (Some ''market'') None (Some ''bitcoin''))
               [sample_bitcoin, sample_defi] = [sample_bitcoin]"
    by code_simp
  obtain ds where
    r: "get_articles (Some ''market'') None (Some ''bitcoin'') 10 0 [sample_bitcoin, sample_defi] =
          Inr \<lparr>articles = ds, total = 1, has_more = False\<rparr>" and
    ds: "list_all2 (\<lambda>a d. to_dict a = Inr d) (offset_limit 0 10 [sample_bitcoin]) ds"
    using list_selects_like_matches [OF sample_tags_decodable,
        of "Some ''market''" None "Some ''bitcoin''" 10 0]
    unfolding sel by auto
  have "offset_limit 0 10 [sample_bitcoin] = [sample_bitcoin]"
    by (simp add: offset_limit_def)
  with ds obtain d where d: "ds = [d]" "to_dict sample_bitcoin = Inr d"
    by (auto simp: list_all2_Cons1)
  then have "d_id d = article_id sample_bitcoin"
    by (auto simp: to_dict_def split: option.splits)
  with r d show ?thesis
    using sample_tags_decodable by simp
qed

text \<open>C3, as the specification states it, fails: the search string "B_tcoin" occurs
  neither in the title nor in the content of the first start-up article, so no stored row
  satisfies the literal policy, yet the list call selects that article.\<close>

theorem literal_substring_counterexample:
  "filter (literal_match None None (Some ''B_tcoin'')) [sample_bitcoin, sample_defi] = [] \<and>
   total (projr (get_articles None None (Some ''B_tcoin'') 10 0
                   [sample_bitcoin, sample_defi])) = 1 \<and>
   map d_id (articles (projr (get_articles None None (Some ''B_tcoin'') 10 0
                   [sample_bitcoin, sample_defi]))) = [article_id sample_bitcoin]"
  by code_simp

text \<open>C4. For every table whose rows hold decodable tags and every list call, the call
  succeeds, the total is the number of all rows matching the filters, and the flag
  \<open>has_more\<close> equals \<open>offset + limit < total\<close>.\<close>

theorem has_more_is_offset_plus_limit_below_total:
  assumes "list_all decodable tbl"
  shows "\<not> isl (get_articles cat st srch limit offset tbl) \<and>
         total (projr (get_articles cat st srch limit offset tbl)) =
           int (length (filter (like_match cat st srch) tbl)) \<and>
         has_more (projr (get_articles cat st srch limit offset tbl)) =
           (offset + limit < total (projr (get_articles cat st srch limit offset tbl)))"
  using get_articles_decodable [OF assms, of cat st srch limit offset] by auto

text \<open>The example of the specification: 25 matching records; limit 10 at offset 0 gives
  \<open>has_more\<close>, at offset 20 it does not.\<close>

theorem has_more_is_offset_plus_limit_below_total_witness:
  "list_all decodable (numbered 25) \<and>
   total (projr (get_articles None None None 10 0 (numbered 25))) = 25 \<and>
   has_more (projr (get_articles None None None 10 0 (numbered 25))) \<and>
   total (projr (get_articles None None None 10 20 (numbered 25))) = 25 \<and>
   \<not> has_more (projr (get_articles None None None 10 20 (numbered 25)))"
proof -
  have n: "int (length (filter (like_match None None None) (numbered 25))) = 25"
    by (simp add: like_match_no_filter length_numbered)
  show ?thesis
    using has_more_is_offset_plus_limit_below_total [OF decodable_numbered, of None None None 10 0 25]
      has_more_is_offset_plus_limit_below_total [OF decodable_numbered, of None None None 10 20 25]
      decodable_numbered [of 25]
    unfolding n by simp
qed

text \<open>C5, as the code has it. For every list call with limit 0 the items are empty while
  the total is the full count of matching rows; for every list call whose offset is at
  least the total the items are empty and \<open>has_more\<close> is \<open>offset + limit < total\<close>, which
  is false whenever the limit is not negative.\<close>

theorem window_edge_cases:
  "(limit = 0 \<longrightarrow>
      get_articles cat st srch limit offset tbl =
        Inr \<lparr>articles = [], total = int (length (filter (like_match cat st srch) tbl)),
             has_more = (offset < int (length (filter (like_match cat st srch) tbl)))\<rparr>) \<and>
   (int (length (filter (like_match cat st srch) tbl)) \<le> offset \<longrightarrow>
      get_articles cat st srch limit offset tbl =
        Inr \<lparr>articles = [], total = int (length (filter (like_match cat st srch) tbl)),
             has_more = (offset + limit < int (length (filter (like_match cat st srch) tbl)))\<rparr>) \<and>
   (int (length (filter (like_match cat st srch) tbl)) \<le> offset \<and> 0 \<le> limit \<longrightarrow>
      get_articles cat st srch limit offset tbl =
        Inr \<lparr>articles = [], total = int (length (filter (like_match cat st srch) tbl)),
             has_more = False\<rparr>)"
proof (intro conjI impI)
  assume "limit = 0"
  then show "get_articles cat st srch limit offset tbl =
        Inr \<lparr>articles = [], total = int (length (filter (like_match cat st srch) tbl)),
             has_more = (offset < int (length (filter (like_match cat st srch) tbl)))\<rparr>"
    by (simp add: get_articles_unfold offset_limit_def)
next
  assume "int (length (filter (like_match cat st srch) tbl)) \<le> offset"
  then show "get_articles cat st srch limit offset tbl =
        Inr \<lparr>articles = [], total = int (length (filter (like_match cat st srch) tbl)),
             has_more = (offset + limit < int (length (filter (like_match cat st srch) tbl)))\<rparr>"
    by (simp add: get_articles_unfold offset_limit_def)
next
  assume "int (length (filter (like_match cat st srch) tbl)) \<le> offset \<and> 0 \<le> limit"
  then have past: "int (length (filter (like_match cat st srch) tbl)) \<le> offset"
    and nonneg: "0 \<le> limit"
    by simp_all
  from past have "drop (nat offset) (filter (like_match cat st srch) tbl) = []"
    by simp
  moreover from past nonneg
  have "\<not> offset + limit < int (length (filter (like_match cat st srch) tbl))"
    by linarith
  ultimately show "get_articles cat st srch limit offset tbl =
        Inr \<lparr>articles = [], total = int (length (filter (like_match cat st srch) tbl)),
             has_more = False\<rparr>"
    by (simp add: get_articles_unfold offset_limit_def)
qed

text \<open>On the two start-up articles: limit 0 returns no item and total 2; offset 2 with
  limit 10 returns no item and no \<open>has_more\<close>.\<close>

theorem window_edge_cases_witness:
  "get_articles None None None 0 0 [sample_bitcoin, sample_defi] =
     Inr \<lparr>articles = [], total = 2, has_more = True\<rparr> \<and>
   get_articles None None None 10 2 [sample_bitcoin, sample_defi] =
     Inr \<lparr>articles = [], total = 2, has_more = False\<rparr>"
proof -
  have n: "int (length (filter (like_match None None None) [sample_bitcoin, sample_defi])) = 2"
    by (simp add: like_match_no_filter)
  have 1: "get_articles None None None 0 0 [sample_bitcoin, sample_defi] =
     Inr \<lparr>articles = [], total = 2, has_more = True\<rparr>"
    using window_edge_cases
      [where limit = 0 and offset = 0 and cat = None and st = None and srch = None
         and tbl = "[sample_bitcoin, sample_defi]", THEN conjunct1]
    unfolding n by simp
  have 2: "get_articles None None None 10 2 [sample_bitcoin, sample_defi] =
     Inr \<lparr>articles = [], total = 2, has_more = False\<rparr>"
    using window_edge_cases
      [where limit = 10 and offset = 2 and cat = None and st = None and srch = None
         and tbl = "[sample_bitcoin, sample_defi]", THEN conjunct2, THEN conjunct2]
    unfolding n by simp
  from 1 2 show ?thesis
    by (intro conjI)
qed

text \<open>C5, as the specification states it, fails for a negative limit. With limit -1 at
  offset 0 the one stored article is returned, not an empty list; with limit -1 at
  offset 1, which is the total, the items are empty but \<open>has_more\<close> is true.\<close>

theorem negative_limit_counterexample:
  "map d_id (articles (projr (get_articles None None None (- 1) 0 [sample_bitcoin]))) =
     [article_id sample_bitcoin] \<and>
   total (projr (get_articles None None None (- 1) 0 [sample_bitcoin])) = 1 \<and>
   articles (projr (get_articles None None None (- 1) 1 [sample_bitcoin])) = [] \<and>
   total (projr (get_articles None None None (- 1) 1 [sample_bitcoin])) = 1 \<and>
   has_more (projr (get_articles None None None (- 1) 1 [sample_bitcoin]))"
  by code_simp

text \<open>C10. A category, status or search given as the empty string is treated as absent:
  the call returns what the call without that filter returns.\<close>

theorem empty_string_filter_is_absent:
  "get_articles (Some []) st srch limit offset tbl = get_articles None st srch limit offset tbl \<and>
   get_articles cat (Some []) srch limit offset tbl = get_articles cat None srch limit offset tbl \<and>
   get_articles cat st (Some []) limit offset tbl = get_articles cat st None limit offset tbl"
  by (simp add: get_articles_def build_query_def)

text \<open>With category "" the two start-up articles, of the categories market and
  regulation, are both returned, although no stored row has the category "".\<close>

theorem empty_string_filter_is_absent_example:
  "get_articles (Some []) None None 10 0 [sample_bitcoin, sample_defi] =
     get_articles None None None 10 0 [sample_bitcoin, sample_defi] \<and>
   total (projr (get_articles (Some []) None None 10 0 [sample_bitcoin, sample_defi])) = 2 \<and>
   map d_category (articles (projr (get_articles (Some []) None None 10 0
       [sample_bitcoin, sample_defi]))) = [market, regulation] \<and>
   filter (literal_match (Some []) None None) [sample_bitcoin, sample_defi] = []"
proof -
  have "total (projr (get_articles None None None 10 0 [sample_bitcoin, sample_defi])) = 2 \<and>
    map d_category (articles (projr (get_articles None None None 10 0
       [sample_bitcoin, sample_defi]))) = [market, regulation] \<and>
    filter (literal_match (Some []) None None) [sample_bitcoin, sample_defi] = []"
    by code_simp
  then show ?thesis
    using empty_string_filter_is_absent
      [where st = None and srch = None and limit = 10 and offset = 0
         and tbl = "[sample_bitcoin, sample_defi]", THEN conjunct1]
    by simp
qed


section \<open>Creating and updating articles\<close>

lemma to_dict_json_dumps:
  "tags a = json_dumps ts \<Longrightarrow>
   to_dict a =
     Inr \<lparr>d_id = article_id a, d_title = title a, d_content = content a,
          d_excerpt = excerpt a, d_category = category a, d_author = author a,
          d_publishedAt = published_at a, d_readTime = read_time a,
          d_imageUrl = image_url a, d_tags = ts, d_status = status a\<rparr>"
  by (simp add: to_dict_def json_loads_json_dumps)

lemma apply_update_fields:
  "title (apply_update data a) = (case u_title data of None \<Rightarrow> title a | Some v \<Rightarrow> v)"
  "content (apply_update data a) = (case u_content data of None \<Rightarrow> content a | Some v \<Rightarrow> v)"
  "read_time (apply_update data a) =
     (case u_content data of None \<Rightarrow> read_time a | Some v \<Rightarrow> read_time_label v)"
  "excerpt (apply_update data a) = (case u_excerpt data of None \<Rightarrow> excerpt a | Some v \<Rightarrow> v)"
  "category (apply_update data a) = (case u_category data of None \<Rightarrow> category a | Some v \<Rightarrow> v)"
  "tags (apply_update data a) = (case u_tags data of None \<Rightarrow> tags a | Some ts \<Rightarrow> json_dumps ts)"
  "image_url (apply_update data a) =
     (case u_image_url data of None \<Rightarrow> image_url a | Some v \<Rightarrow> Some v)"
  "status (apply_update data a) = (case u_status data of None \<Rightarrow> status a | Some v \<Rightarrow> v)"
  "article_id (apply_update data a) = article_id a"
  "author (apply_update data a) = author a"
  "published_at (apply_update data a) = published_at a"
  by (simp_all add: apply_update_def Let_def split: option.splits)

lemma commit_update_others:
  "filter (\<lambda>r. article_id r \<noteq> key) (commit_update key a' tbl) =
   filter (\<lambda>r. article_id r \<noteq> key) tbl"
  if "article_id a' = key"
  using that unfolding commit_update_def by (induction tbl) simp_all

lemma commit_update_first:
  "first_where (\<lambda>r. article_id r = key) tbl = Some a \<Longrightarrow> article_id a' = key \<Longrightarrow>
   first_where (\<lambda>r. article_id r = key) (commit_update key a' tbl) = Some a'"
  unfolding first_where_def commit_update_def
  by (induction tbl) (auto split: if_splits)

text \<open>C6. For every stored article and every update request, each field of the stored row
  takes the value given in the request when one is given and keeps its previous value
  otherwise; the read-time label is recomputed from the new content as
  \<open>word_count div 200 + 1\<close> when content is given and kept otherwise; id, author and
  publication time are never changed. The row is written back under its key, the other
  rows are left as they were, and the response is the dictionary of the updated row.\<close>

theorem update_changes_only_provided_fields:
  assumes "first_where (\<lambda>r. article_id r = key) tbl = Some a"
  shows "update_article key data cu tbl =
           (to_dict (apply_update data a), commit_update key (apply_update data a) tbl) \<and>
         title (apply_update data a) = (case u_title data of None \<Rightarrow> title a | Some v \<Rightarrow> v) \<and>
         content (apply_update data a) =
           (case u_content data of None \<Rightarrow> content a | Some v \<Rightarrow> v) \<and>
         read_time (apply_update data a) =
           (case u_content data of
              None \<Rightarrow> read_time a
            | Some v \<Rightarrow> str_of_nat (length (py_split v) div 200 + 1) @ '' min'') \<and>
         excerpt (apply_update data a) =
           (case u_excerpt data of None \<Rightarrow> excerpt a | Some v \<Rightarrow> v) \<and>
         category (apply_update data a) =
           (case u_category data of None \<Rightarrow> category a | Some v \<Rightarrow> v) \<and>
         tags (apply_update data a) =
           (case u_tags data of None \<Rightarrow> tags a | Some ts \<Rightarrow> json_dumps ts) \<and>
         image_url (apply_update data a) =
           (case u_image_url data of None \<Rightarrow> image_url a | Some v \<Rightarrow> Some v) \<and>
         status (apply_update data a) =
           (case u_status data of None \<Rightarrow> status a | Some v \<Rightarrow> v) \<and>
         article_id (apply_update data a) = article_id a \<and>
         author (apply_update data a) = author a \<and>
         published_at (apply_update data a) = published_at a \<and>
         first_where (\<lambda>r. article_id r = key) (commit_update key (apply_update data a) tbl) =
           Some (apply_update data a) \<and>
         filter (\<lambda>r. article_id r \<noteq> key) (commit_update key (apply_update data a) tbl) =
           filter (\<lambda>r. article_id r \<noteq> key) tbl"
proof -
  have key: "article_id a = key"
    using first_where_Some [OF assms] by simp
  then have key': "article_id (apply_update data a) = key"
    by (simp add: apply_update_fields)
  have "update_article key data cu tbl =
          (to_dict (apply_update data a), commit_update key (apply_update data a) tbl)"
    using assms by (simp add: update_article_def Let_def)
  moreover have "first_where (\<lambda>r. article_id r = key)
      (commit_update key (apply_update data a) tbl) = Some (apply_update data a)"
    using assms key' by (rule commit_update_first)
  moreover have "filter (\<lambda>r. article_id r \<noteq> key) (commit_update key (apply_update data a) tbl) =
      filter (\<lambda>r. article_id r \<noteq> key) tbl"
    using key' by (rule commit_update_others)
  ultimately show ?thesis
    by (simp add: apply_update_fields read_time_label_def split: option.splits)
qed

text \<open>The example of the specification: an update of the first start-up article that
  gives only the content "new text" leaves title, category and tags as they were and
  sets the read time, "5 min" before, to "1 min".\<close>

theorem update_changes_only_provided_fields_witness:
  "first_where (\<lambda>r. article_id r = article_id sample_bitcoin) [sample_bitcoin, sample_defi] =
     Some sample_bitcoin \<and>
   snd (update_article (article_id sample_bitcoin)
          \<lparr>u_title = None, u_content = Some ''new text'', u_excerpt = None, u_category = None,
           u_tags = None, u_image_url = None, u_status = None\<rparr>
          sample_admin [sample_bitcoin, sample_defi]) =
     [sample_bitcoin\<lparr>content := ''new text'', read_time := ''1 min''\<rparr>, sample_defi] \<and>
   read_time sample_bitcoin = ''5 min''"
proof -
  let ?data = "\<lparr>u_title = None, u_content = Some ''new text'', u_excerpt = None,
      u_category = None, u_tags = None, u_image_url = None, u_status = None\<rparr>"
  have found: "first_where (\<lambda>r. article_id r = article_id sample_bitcoin)
      [sample_bitcoin, sample_defi] = Some sample_bitcoin"
    by (simp add: first_where_def)
  have label: "read_time_label ''new text'' = ''1 min''"
    by code_simp
  have upd: "apply_update ?data sample_bitcoin =
      sample_bitcoin\<lparr>content := ''new text'', read_time := ''1 min''\<rparr>"
    by (simp add: apply_update_def label)
  have other: "article_id sample_defi \<noteq> article_id sample_bitcoin"
    by (simp add: sample_defi_def sample_bitcoin_def)
  have "snd (update_article (article_id sample_bitcoin) ?data sample_admin
          [sample_bitcoin, sample_defi]) =
        commit_update (article_id sample_bitcoin) (apply_update ?data sample_bitcoin)
          [sample_bitcoin, sample_defi]"
    using update_changes_only_provided_fields [OF found, of ?data sample_admin]
    by simp
  also have "\<dots> = [sample_bitcoin\<lparr>content := ''new text'', read_time := ''1 min''\<rparr>, sample_defi]"
    using other unfolding upd by (simp add: commit_update_def)
  finally show ?thesis
    using found by (simp add: sample_bitcoin_def)
qed

text \<open>C7. A create request stores a new article exactly when the generated id is not yet
  the id of a stored article, so the id of a created article is fresh and, the ids being
  distinct before, they are distinct after. The id is the one generated by the handler
  (\<open>uuid4\<close>), the author is the display name of the acting user, the read time is the
  label of \<open>word_count div 200 + 1\<close>, which is at least 1, and the status is \<open>published\<close>
  when the request gives none. The response carries the same values and the tag list of
  the request. When the generated id is already stored, the primary key rejects the row
  and the table is unchanged.\<close>

theorem create_assigns_id_author_read_time_status:
  "(uuid \<notin> set (map article_id tbl) \<longrightarrow>
      (\<exists>a d. create_article uuid now data cu tbl = (Inr d, tbl @ [a]) \<and>
         article_id a = uuid \<and> d_id d = uuid \<and>
         author a = user_name cu \<and> d_author d = user_name cu \<and>
         read_time a = str_of_nat (length (py_split (c_content data)) div 200 + 1) @ '' min'' \<and>
         d_readTime d = read_time a \<and>
         1 \<le> length (py_split (c_content data)) div 200 + 1 \<and>
         status a = (case c_status data of None \<Rightarrow> published | Some s \<Rightarrow> s) \<and>
         d_status d = status a \<and>
         d_tags d = c_tags data \<and>
         (distinct (map article_id tbl) \<longrightarrow> distinct (map article_id (tbl @ [a]))))) \<and>
   (uuid \<in> set (map article_id tbl) \<longrightarrow>
      create_article uuid now data cu tbl = (Inl IntegrityError, tbl))"
proof (intro conjI impI)
  assume fresh: "uuid \<notin> set (map article_id tbl)"
  define a where "a =
     \<lparr>article_id = uuid, title = c_title data, content = c_content data,
      excerpt = c_excerpt data, category = c_category data,
      author = user_name cu, published_at = now,
      read_time = read_time_label (c_content data),
      image_url = c_image_url data, tags = json_dumps (c_tags data),
      status = (case c_status data of None \<Rightarrow> published | Some s \<Rightarrow> s)\<rparr>"
  define d where "d =
     \<lparr>d_id = article_id a, d_title = title a, d_content = content a,
      d_excerpt = excerpt a, d_category = category a, d_author = author a,
      d_publishedAt = published_at a, d_readTime = read_time a,
      d_imageUrl = image_url a, d_tags = c_tags data, d_status = status a\<rparr>"
  have "tags a = json_dumps (c_tags data)"
    by (simp add: a_def)
  then have dict: "to_dict a = Inr d"
    unfolding d_def by (rule to_dict_json_dumps)
  have ins: "commit_insert a tbl = Inr (tbl @ [a])"
    using fresh by (simp add: commit_insert_def a_def)
  have "create_article uuid now data cu tbl = (Inr d, tbl @ [a])"
    unfolding create_article_def Let_def a_def [symmetric] by (simp add: ins dict)
  moreover have "distinct (map article_id tbl) \<longrightarrow> distinct (map article_id (tbl @ [a]))"
    using fresh by (simp add: a_def)
  ultimately show "\<exists>a d. create_article uuid now data cu tbl = (Inr d, tbl @ [a]) \<and>
         article_id a = uuid \<and> d_id d = uuid \<and>
         author a = user_name cu \<and> d_author d = user_name cu \<and>
         read_time a = str_of_nat (length (py_split (c_content data)) div 200 + 1) @ '' min'' \<and>
         d_readTime d = read_time a \<and>
         1 \<le> length (py_split (c_content data)) div 200 + 1 \<and>
         status a = (case c_status data of None \<Rightarrow> published | Some s \<Rightarrow> s) \<and>
         d_status d = status a \<and>
         d_tags d = c_tags data \<and>
         (distinct (map article_id tbl) \<longrightarrow> distinct (map article_id (tbl @ [a])))"
    by (intro exI [of _ a] exI [of _ d]) (simp add: a_def d_def read_time_label_def)
next
  assume "uuid \<in> set (map article_id tbl)"
  then show "create_article uuid now data cu tbl = (Inl IntegrityError, tbl)"
    by (simp add: create_article_def commit_insert_def)
qed

text \<open>A request of the administrator without status and with a content of three words,
  on the start-up table: the article is appended with the generated id, author "Admin",
  read time "1 min" and status \<open>published\<close>. The same request with the id of a stored
  article is rejected.\<close>

theorem create_assigns_id_author_read_time_status_witness:
  "snd (create_article ''5e1f3b7a-0c2d-4e6f-8a9b-1c2d3e4f5a04'' 2000
          \<lparr>c_title = ''Layer 2'', c_content = ''rollups scale ethereum'', c_excerpt = ''L2'',
           c_category = technology, c_tags = [''a'', ''b,c''], c_image_url = None,
           c_status = None\<rparr> sample_admin [sample_bitcoin, sample_defi]) =
     [sample_bitcoin, sample_defi,
      \<lparr>article_id = ''5e1f3b7a-0c2d-4e6f-8a9b-1c2d3e4f5a04'', title = ''Layer 2'',
       content = ''rollups scale ethereum'', excerpt = ''L2'', category = technology,
       author = ''Admin'', published_at = 2000, read_time = ''1 min'', image_url = None,
       tags = json_dumps [''a'', ''b,c''], status = published\<rparr>] \<and>
   create_article (article_id sample_defi) 2000
          \<lparr>c_title = ''Layer 2'', c_content = ''rollups scale ethereum'', c_excerpt = ''L2'',
           c_category = technology, c_tags = [''a'', ''b,c''], c_image_url = None,
           c_status = None\<rparr> sample_admin [sample_bitcoin, sample_defi] =
     (Inl IntegrityError, [sample_bitcoin, sample_defi]) \<and>
   d_tags (projr (fst (create_article ''5e1f3b7a-0c2d-4e6f-8a9b-1c2d3e4f5a04'' 2000
          \<lparr>c_title = ''Layer 2'', c_content = ''rollups scale ethereum'', c_excerpt = ''L2'',
           c_category = technology, c_tags = [''a'', ''b,c''], c_image_url = None,
           c_status = None\<rparr> sample_admin [sample_bitcoin, sample_defi]))) = [''a'', ''b,c'']"
proof -
  let ?data = "\<lparr>c_title = ''Layer 2'', c_content = ''rollups scale ethereum'', c_excerpt = ''L2'',
           c_category = technology, c_tags = [''a'', ''b,c''], c_image_url = None,
           c_status = None\<rparr>"
  let ?tbl = "[sample_bitcoin, sample_defi]"
  have fresh: "''5e1f3b7a-0c2d-4e6f-8a9b-1c2d3e4f5a04'' \<notin> set (map article_id ?tbl)"
    by (simp add: sample_bitcoin_def sample_defi_def)
  have stored: "article_id sample_defi \<in> set (map article_id ?tbl)"
    by simp
  have label: "read_time_label ''rollups scale ethereum'' = ''1 min''"
    by code_simp
  have 1: "snd (create_article ''5e1f3b7a-0c2d-4e6f-8a9b-1c2d3e4f5a04'' 2000 ?data sample_admin ?tbl) =
      ?tbl @ [\<lparr>article_id = ''5e1f3b7a-0c2d-4e6f-8a9b-1c2d3e4f5a04'', title = ''Layer 2'',
       content = ''rollups scale ethereum'', excerpt = ''L2'', category = technology,
       author = ''Admin'', published_at = 2000, read_time = ''1 min'', image_url = None,
       tags = json_dumps [''a'', ''b,c''], status = published\<rparr>]"
    using fresh by (simp add: create_article_def Let_def commit_insert_def label sample_admin_def)
  have 2: "create_article (article_id sample_defi) 2000 ?data sample_admin ?tbl =
      (Inl IntegrityError, ?tbl)"
    by (rule create_assigns_id_author_read_time_status
          [where uuid = "article_id sample_defi" and tbl = ?tbl,
           THEN conjunct2, rule_format, OF stored])
  obtain a d where
    "create_article ''5e1f3b7a-0c2d-4e6f-8a9b-1c2d3e4f5a04'' 2000 ?data sample_admin ?tbl =
       (Inr d, ?tbl @ [a])" and "d_tags d = c_tags ?data"
    using create_assigns_id_author_read_time_status
          [where uuid = "''5e1f3b7a-0c2d-4e6f-8a9b-1c2d3e4f5a04''" and tbl = ?tbl
             and data = ?data and now = 2000 and cu = sample_admin,
           THEN conjunct1, rule_format, OF fresh]
    by blast
  then have 3: "d_tags (projr (fst (create_article ''5e1f3b7a-0c2d-4e6f-8a9b-1c2d3e4f5a04'' 2000
      ?data sample_admin ?tbl))) = [''a'', ''b,c'']"
    by simp
  from 1 2 3 show ?thesis
    by simp
qed

section \<open>Stored tags stay decodable\<close>

text \<open>The hypothesis of the listing theorems is an invariant of the table: it holds of the
  start-up articles and both writing endpoints keep it.\<close>

lemma apply_update_decodable: "decodable a \<Longrightarrow> decodable (apply_update data a)"
  by (simp add: decodable_def apply_update_fields json_loads_json_dumps split: option.splits)

lemma create_article_decodable:
  "list_all decodable tbl \<Longrightarrow> list_all decodable (snd (create_article uuid now data cu tbl))"
  by (simp add: create_article_def Let_def commit_insert_def decodable_def json_loads_json_dumps)

lemma update_article_decodable:
  assumes "list_all decodable tbl"
  shows "list_all decodable (snd (update_article key data cu tbl))"
proof (cases "first_where (\<lambda>a. article_id a = key) tbl")
  case None
  then show ?thesis
    using assms by (simp add: update_article_def)
next
  case (Some a)
  then have "a \<in> set tbl"
    using first_where_Some by fastforce
  then have "decodable (apply_update data a)"
    using assms by (auto simp: list_all_iff intro: apply_update_decodable)
  then show ?thesis
    using assms Some by (auto simp: update_article_def Let_def commit_update_def list_all_iff)
qed


end
